theory Spec2Isabelle
  imports Complex_Main
begin

section \<open>The Pong game of \<^verbatim>\<open>pong.py\<close>\<close>

text \<open>
  The coordinates and speeds of the program are Python floats; they are modelled as
  real numbers. The score is a Python int. The three calls of
  \<^verbatim>\<open>random.uniform\<close> made by \<^verbatim>\<open>Ball.__init__\<close> and
  \<^verbatim>\<open>Ball.restart\<close> are modelled by a record of the three values drawn,
  passed in by the caller; \<^verbatim>\<open>draws_ok\<close> says that each lies in the range
  asked for.
\<close>

subsection \<open>Global constants\<close>

definition SCREEN_WIDTH :: real where "SCREEN_WIDTH = 400"
definition SCREEN_HEIGHT :: real where "SCREEN_HEIGHT = 300"
definition BALL_RADIUS :: real where "BALL_RADIUS = 10"
definition PADDLE_WIDTH :: real where "PADDLE_WIDTH = 10"
definition PADDLE_HEIGHT :: real where "PADDLE_HEIGHT = 50"
definition MOVE_AMOUNT :: real where "MOVE_AMOUNT = 5"
definition SCORE_HIT :: int where "SCORE_HIT = 1"
definition SCORE_MISS :: int where "SCORE_MISS = 5"

lemmas constants =
  SCREEN_WIDTH_def SCREEN_HEIGHT_def BALL_RADIUS_def PADDLE_WIDTH_def
  PADDLE_HEIGHT_def MOVE_AMOUNT_def SCORE_HIT_def SCORE_MISS_def

subsection \<open>Point, Velocity, Paddle, Ball\<close>

record point =
  x :: real
  y :: real

record velocity =
  dx :: real
  dy :: real

definition Point :: point where
  "Point = \<lparr>x = 0, y = 0\<rparr>"

definition Velocity :: velocity where
  "Velocity = \<lparr>dx = 1, dy = 1\<rparr>"

record paddle =
  center :: point

record ball =
  center :: point
  velocity :: velocity

record draws =
  draw_y :: real
  draw_dx :: real
  draw_dy :: real

definition draws_ok :: "draws \<Rightarrow> bool" where
  "draws_ok d \<longleftrightarrow>
     0 \<le> draw_y d \<and> draw_y d \<le> SCREEN_HEIGHT \<and>
     3 \<le> draw_dx d \<and> draw_dx d \<le> 5 \<and>
     3 \<le> draw_dy d \<and> draw_dy d \<le> 5"

definition Paddle :: paddle where
  "Paddle = \<lparr>paddle.center = Point\<lparr>x := SCREEN_WIDTH - PADDLE_WIDTH, y := SCREEN_HEIGHT * 0.5\<rparr>\<rparr>"

definition move_up :: "paddle \<Rightarrow> paddle" where
  "move_up p = p\<lparr>paddle.center := (paddle.center p)\<lparr>y := y (paddle.center p) + 5\<rparr>\<rparr>"

definition move_down :: "paddle \<Rightarrow> paddle" where
  "move_down p = p\<lparr>paddle.center := (paddle.center p)\<lparr>y := y (paddle.center p) - 5\<rparr>\<rparr>"

definition Ball :: "draws \<Rightarrow> ball" where
  "Ball d =
     \<lparr>ball.center = Point\<lparr>x := 0, y := draw_y d\<rparr>,
      velocity = Velocity\<lparr>dx := draw_dx d, dy := draw_dy d\<rparr>\<rparr>"

definition advance :: "ball \<Rightarrow> ball" where
  "advance b =
     b\<lparr>ball.center := (ball.center b)
          \<lparr>x := x (ball.center b) + dx (velocity b),
           y := y (ball.center b) + dy (velocity b)\<rparr>\<rparr>"

definition bounce_horizontal :: "ball \<Rightarrow> ball" where
  "bounce_horizontal b = b\<lparr>velocity := (velocity b)\<lparr>dx := dx (velocity b) * -1\<rparr>\<rparr>"

definition bounce_vertical :: "ball \<Rightarrow> ball" where
  "bounce_vertical b = b\<lparr>velocity := (velocity b)\<lparr>dy := dy (velocity b) * -1\<rparr>\<rparr>"

definition restart :: "ball \<Rightarrow> draws \<Rightarrow> ball" where
  "restart b d =
     b\<lparr>ball.center := (ball.center b)\<lparr>x := 0, y := draw_y d\<rparr>,
       velocity := (velocity b)\<lparr>dx := draw_dx d, dy := draw_dy d\<rparr>\<rparr>"

subsection \<open>The game\<close>

record pong =
  ball :: ball
  paddle :: paddle
  score :: int
  holding_left :: bool
  holding_right :: bool

definition Pong :: "draws \<Rightarrow> pong" where
  "Pong d =
     \<lparr>ball = Ball d, paddle = Paddle, score = 0,
      holding_left = False, holding_right = False\<rparr>"

definition check_hit :: "pong \<Rightarrow> pong" where
  "check_hit g =
     (let too_close_x = (PADDLE_WIDTH / 2) + BALL_RADIUS;
          too_close_y = (PADDLE_HEIGHT / 2) + BALL_RADIUS
      in if \<bar>x (ball.center (ball g)) - x (paddle.center (paddle g))\<bar> < too_close_x \<and>
            \<bar>y (ball.center (ball g)) - y (paddle.center (paddle g))\<bar> < too_close_y \<and>
            dx (velocity (ball g)) > 0
         then g\<lparr>ball := bounce_horizontal (ball g), score := score g + SCORE_HIT\<rparr>
         else g)"

definition check_miss :: "pong \<Rightarrow> draws \<Rightarrow> pong" where
  "check_miss g d =
     (if x (ball.center (ball g)) > SCREEN_WIDTH
      then (let g1 = (if score g \<ge> 5 then g\<lparr>score := score g - SCORE_MISS\<rparr>
                      else g\<lparr>score := 0\<rparr>)
            in g1\<lparr>ball := restart (ball g1) d\<rparr>)
      else g)"

definition check_bounce :: "pong \<Rightarrow> pong" where
  "check_bounce g =
     (let g1 = (if x (ball.center (ball g)) - BALL_RADIUS < 0 \<and> dx (velocity (ball g)) < 0
                then g\<lparr>ball := bounce_horizontal (ball g)\<rparr> else g);
          g2 = (if y (ball.center (ball g1)) - BALL_RADIUS < 0 \<and> dy (velocity (ball g1)) < 0
                then g1\<lparr>ball := bounce_vertical (ball g1)\<rparr> else g1)
      in if y (ball.center (ball g2)) + BALL_RADIUS > SCREEN_HEIGHT \<and> dy (velocity (ball g2)) > 0
         then g2\<lparr>ball := bounce_vertical (ball g2)\<rparr> else g2)"

definition check_keys :: "pong \<Rightarrow> pong" where
  "check_keys g =
     (let g1 = (if holding_left g \<and> (y (paddle.center (paddle g)) - PADDLE_HEIGHT * 0.5) \<ge> 0
                then g\<lparr>paddle := move_down (paddle g)\<rparr> else g)
      in if holding_right g1 \<and> (y (paddle.center (paddle g1)) + PADDLE_HEIGHT * 0.5) < SCREEN_HEIGHT
         then g1\<lparr>paddle := move_up (paddle g1)\<rparr> else g1)"

definition update :: "pong \<Rightarrow> real \<Rightarrow> draws \<Rightarrow> pong" where
  "update g delta_time d =
     (let g1 = g\<lparr>ball := advance (ball g)\<rparr>;
          g2 = check_keys g1;
          g3 = check_miss g2 d;
          g4 = check_hit g3
      in check_bounce g4)"

text \<open>
  The keys of the window library that the two key callbacks tell apart; every other key
  is \<^verbatim>\<open>OTHER\<close>.
\<close>

datatype key = LEFT | RIGHT | UP | DOWN | OTHER

definition on_key_press :: "pong \<Rightarrow> key \<Rightarrow> pong" where
  "on_key_press g k =
     (let g1 = (if k = LEFT \<or> k = DOWN then g\<lparr>holding_left := True\<rparr> else g)
      in if k = RIGHT \<or> k = UP then g1\<lparr>holding_right := True\<rparr> else g1)"

definition on_key_release :: "pong \<Rightarrow> key \<Rightarrow> pong" where
  "on_key_release g k =
     (let g1 = (if k = LEFT \<or> k = DOWN then g\<lparr>holding_left := False\<rparr> else g)
      in if k = RIGHT \<or> k = UP then g1\<lparr>holding_right := False\<rparr> else g1)"

text \<open>
  The window library calls the three callbacks in any order; a run of the game is a list
  of such calls, applied from left to right.
\<close>

datatype event = KeyPress key | KeyRelease key | Update real draws

fun step :: "pong \<Rightarrow> event \<Rightarrow> pong" where
  "step g (KeyPress k) = on_key_press g k"
| "step g (KeyRelease k) = on_key_release g k"
| "step g (Update delta_time d) = update g delta_time d"

fun run :: "pong \<Rightarrow> event list \<Rightarrow> pong" where
  "run g [] = g"
| "run g (e # es) = run (step g e) es"

fun event_ok :: "event \<Rightarrow> bool" where
  "event_ok (Update delta_time d) = draws_ok d"
| "event_ok _ = True"


section \<open>Frame lemmas: what each callback leaves alone\<close>

lemma check_bounce_frame:
  "paddle (check_bounce g) = paddle g \<and> score (check_bounce g) = score g \<and>
   holding_left (check_bounce g) = holding_left g \<and> holding_right (check_bounce g) = holding_right g"
  by (simp add: check_bounce_def Let_def)

lemma check_hit_frame:
  "paddle (check_hit g) = paddle g \<and>
   holding_left (check_hit g) = holding_left g \<and> holding_right (check_hit g) = holding_right g"
  by (simp add: check_hit_def Let_def)

lemma check_miss_frame:
  "paddle (check_miss g d) = paddle g \<and>
   holding_left (check_miss g d) = holding_left g \<and> holding_right (check_miss g d) = holding_right g"
  by (simp add: check_miss_def Let_def)

lemma check_keys_frame:
  "ball (check_keys g) = ball g \<and> score (check_keys g) = score g \<and>
   holding_left (check_keys g) = holding_left g \<and> holding_right (check_keys g) = holding_right g"
  by (simp add: check_keys_def Let_def)

lemma update_unfold:
  "update g dt d = check_bounce (check_hit (check_miss (check_keys (g\<lparr>ball := advance (ball g)\<rparr>)) d))"
  by (simp add: update_def Let_def)

lemma check_keys_advance:
  "paddle (check_keys (g\<lparr>ball := b\<rparr>)) = paddle (check_keys g)"
  by (auto simp: check_keys_def Let_def)

lemma update_paddle: "paddle (update g dt d) = paddle (check_keys g)"
  by (simp add: update_unfold check_bounce_frame check_hit_frame check_miss_frame check_keys_advance)

lemma update_holding:
  "holding_left (update g dt d) = holding_left g \<and> holding_right (update g dt d) = holding_right g"
  by (simp add: update_unfold check_bounce_frame check_hit_frame check_miss_frame check_keys_frame)

lemma key_frame:
  "paddle (on_key_press g k) = paddle g \<and> ball (on_key_press g k) = ball g \<and>
   score (on_key_press g k) = score g \<and>
   paddle (on_key_release g k) = paddle g \<and> ball (on_key_release g k) = ball g \<and>
   score (on_key_release g k) = score g"
  by (simp add: on_key_press_def on_key_release_def Let_def)

section \<open>The ball\<close>

text \<open>
  C6. Bouncing twice in the same direction gives the ball back as it was. One horizontal
  bounce negates \<open>dx\<close> and leaves \<open>dy\<close> and the position alone; one vertical bounce
  negates \<open>dy\<close> and leaves \<open>dx\<close> and the position alone.
\<close>

theorem bounce_involution:
  "bounce_horizontal (bounce_horizontal b) = b \<and>
   bounce_vertical (bounce_vertical b) = b \<and>
   dx (velocity (bounce_horizontal b)) = - dx (velocity b) \<and>
   dy (velocity (bounce_horizontal b)) = dy (velocity b) \<and>
   ball.center (bounce_horizontal b) = ball.center b \<and>
   dy (velocity (bounce_vertical b)) = - dy (velocity b) \<and>
   dx (velocity (bounce_vertical b)) = dx (velocity b) \<and>
   ball.center (bounce_vertical b) = ball.center b"
  by (simp add: bounce_horizontal_def bounce_vertical_def)

text \<open>
  C4. Whatever the ball was, after a restart whose three draws lie in their ranges the
  ball is at \<open>x = 0\<close> with \<open>y\<close> in \<open>[0, SCREEN_HEIGHT]\<close>, and both speeds lie in
  \<open>[3, 5]\<close>, so both are strictly positive.
\<close>

theorem restart_postcondition:
  assumes "draws_ok d"
  shows "x (ball.center (restart b d)) = 0 \<and>
         0 \<le> y (ball.center (restart b d)) \<and> y (ball.center (restart b d)) \<le> SCREEN_HEIGHT \<and>
         3 \<le> dx (velocity (restart b d)) \<and> dx (velocity (restart b d)) \<le> 5 \<and>
         3 \<le> dy (velocity (restart b d)) \<and> dy (velocity (restart b d)) \<le> 5 \<and>
         0 < dx (velocity (restart b d)) \<and> 0 < dy (velocity (restart b d))"
  using assms by (simp add: restart_def draws_ok_def)

theorem restart_postcondition_witness:
  "draws_ok \<lparr>draw_y = 120, draw_dx = 3, draw_dy = 5\<rparr> \<and>
   x (ball.center (restart
        \<lparr>ball.center = \<lparr>x = 401, y = -7\<rparr>, velocity = \<lparr>dx = 4, dy = -3\<rparr>\<rparr>
        \<lparr>draw_y = 120, draw_dx = 3, draw_dy = 5\<rparr>)) = 0 \<and>
   dx (velocity (restart
        \<lparr>ball.center = \<lparr>x = 401, y = -7\<rparr>, velocity = \<lparr>dx = 4, dy = -3\<rparr>\<rparr>
        \<lparr>draw_y = 120, draw_dx = 3, draw_dy = 5\<rparr>)) = 3 \<and>
   0 < dy (velocity (restart
        \<lparr>ball.center = \<lparr>x = 401, y = -7\<rparr>, velocity = \<lparr>dx = 4, dy = -3\<rparr>\<rparr>
        \<lparr>draw_y = 120, draw_dx = 3, draw_dy = 5\<rparr>))"
proof -
  have h: "draws_ok \<lparr>draw_y = 120, draw_dx = 3, draw_dy = 5\<rparr>"
    by (simp add: draws_ok_def SCREEN_HEIGHT_def)
  show ?thesis
    using h restart_postcondition [OF h,
        of "\<lparr>ball.center = \<lparr>x = 401, y = -7\<rparr>, velocity = \<lparr>dx = 4, dy = -3\<rparr>\<rparr>"]
    by (simp add: restart_def)
qed

section \<open>The tick\<close>

text \<open>
  C7. The tick does not read the elapsed time it is given: two calls of \<open>update\<close> on the
  same game with the same draws and two different elapsed times give the same game.
\<close>

theorem update_delta_time_independent:
  "update g dt1 d = update g dt2 d"
  by (simp add: update_def)



section \<open>The paddle\<close>

lemma check_keys_y:
  "y (paddle.center (paddle (check_keys g))) =
     (let y0 = y (paddle.center (paddle g));
          y1 = (if holding_left g \<and> 25 \<le> y0 then y0 - 5 else y0)
      in if holding_right g \<and> y1 < 275 then y1 + 5 else y1)"
  by (auto simp: check_keys_def Let_def move_up_def move_down_def constants)

lemma check_keys_x:
  "x (paddle.center (paddle (check_keys g))) = x (paddle.center (paddle g))"
  by (auto simp: check_keys_def Let_def move_up_def move_down_def)

lemma step_paddle_bounds:
  assumes "20 \<le> y (paddle.center (paddle g)) \<and> y (paddle.center (paddle g)) \<le> 280"
  shows "20 \<le> y (paddle.center (paddle (step g e))) \<and> y (paddle.center (paddle (step g e))) \<le> 280"
proof (cases e)
  case (Update dt d)
  then show ?thesis using assms
    by (auto simp: update_paddle check_keys_y Let_def)
qed (simp_all add: key_frame assms)

lemma run_paddle_bounds:
  "20 \<le> y (paddle.center (paddle g)) \<and> y (paddle.center (paddle g)) \<le> 280 \<Longrightarrow>
   20 \<le> y (paddle.center (paddle (run g es))) \<and> y (paddle.center (paddle (run g es))) \<le> 280"
proof (induction es arbitrary: g)
  case Nil
  then show ?case by simp
next
  case (Cons e es)
  show ?case using Cons.IH [OF step_paddle_bounds [OF Cons.prems]] by simp
qed

lemma Pong_paddle_y: "y (paddle.center (paddle (Pong d))) = 150"
  by (simp add: Pong_def Paddle_def Point_def constants)

text \<open>
  C9. From the first position of the paddle, \<open>y = 150\<close>, after any list of key presses,
  key releases and ticks the paddle's \<open>y\<close> lies between
  \<open>PADDLE_HEIGHT / 2 - MOVE_AMOUNT = 20\<close> and
  \<open>SCREEN_HEIGHT - PADDLE_HEIGHT / 2 + MOVE_AMOUNT = 280\<close>.
\<close>

theorem paddle_overshoot_bound:
  "PADDLE_HEIGHT / 2 - MOVE_AMOUNT \<le> y (paddle.center (paddle (run (Pong d) es))) \<and>
   y (paddle.center (paddle (run (Pong d) es))) \<le> SCREEN_HEIGHT - PADDLE_HEIGHT / 2 + MOVE_AMOUNT \<and>
   PADDLE_HEIGHT / 2 - MOVE_AMOUNT = 20 \<and> SCREEN_HEIGHT - PADDLE_HEIGHT / 2 + MOVE_AMOUNT = 280"
  using run_paddle_bounds [of "Pong d" es] by (simp add: Pong_paddle_y constants)

lemma run_updates_left:
  "holding_left g \<Longrightarrow> \<not> holding_right g \<Longrightarrow> real n * 5 \<le> y (paddle.center (paddle g)) - 20 \<Longrightarrow>
   y (paddle.center (paddle (run g (replicate n (Update dt d))))) =
     y (paddle.center (paddle g)) - 5 * real n"
proof (induction n arbitrary: g)
  case 0
  then show ?case by simp
next
  case (Suc n)
  let ?g = "update g dt d"
  have y1: "y (paddle.center (paddle ?g)) = y (paddle.center (paddle g)) - 5"
    using Suc.prems by (simp add: update_paddle check_keys_y Let_def)
  have "holding_left ?g" "\<not> holding_right ?g"
    using Suc.prems by (simp_all add: update_holding)
  moreover have "real n * 5 \<le> y (paddle.center (paddle ?g)) - 20"
    using Suc.prems y1 by simp
  ultimately have "y (paddle.center (paddle (run ?g (replicate n (Update dt d))))) =
     y (paddle.center (paddle ?g)) - 5 * real n"
    by (rule Suc.IH)
  then show ?case using y1 by simp
qed

text \<open>
  C1. The claim fails on the code. With the LEFT key held from the start, the guard of
  \<open>check_keys\<close> reads the position before the move, so the 26th tick still moves the
  paddle, from \<open>y = 25\<close> to \<open>y = 20\<close>: its lower edge \<open>y - PADDLE_HEIGHT / 2\<close> is
  then at \<open>-5\<close>, below the screen.
\<close>

theorem paddle_leaves_screen:
  "y (paddle.center (paddle (run (Pong \<lparr>draw_y = 150, draw_dx = 3, draw_dy = 3\<rparr>)
       (KeyPress LEFT # replicate 26 (Update 1 \<lparr>draw_y = 150, draw_dx = 3, draw_dy = 3\<rparr>)))))
     - PADDLE_HEIGHT / 2 = - 5"
proof -
  let ?d = "\<lparr>draw_y = 150, draw_dx = 3, draw_dy = 3\<rparr>"
  let ?g = "on_key_press (Pong ?d) LEFT"
  have "holding_left ?g" "\<not> holding_right ?g"
    by (simp_all add: on_key_press_def Pong_def Let_def)
  moreover have y0: "y (paddle.center (paddle ?g)) = 150"
    by (simp add: key_frame Pong_paddle_y)
  ultimately have "y (paddle.center (paddle (run ?g (replicate 26 (Update 1 ?d))))) = 150 - 5 * real 26"
    using run_updates_left [of ?g 26 1 ?d] by simp
  then show ?thesis by (simp add: constants)
qed

section \<open>Scoring a miss\<close>

lemma check_miss_score:
  "score (check_miss g d) =
     (if x (ball.center (ball g)) > SCREEN_WIDTH then (if score g \<ge> 5 then score g - 5 else 0)
      else score g)"
  by (simp add: check_miss_def Let_def SCORE_MISS_def)

lemma check_miss_ball:
  "ball (check_miss g d) =
     (if x (ball.center (ball g)) > SCREEN_WIDTH then restart (ball g) d else ball g)"
  by (simp add: check_miss_def Let_def)

lemma check_hit_score:
  "score g \<le> score (check_hit g)"
  by (simp add: check_hit_def Let_def SCORE_HIT_def)

lemma update_score_nonneg: "0 \<le> score g \<Longrightarrow> 0 \<le> score (update g dt d)"
proof -
  assume a: "0 \<le> score g"
  let ?g2 = "check_keys (g\<lparr>ball := advance (ball g)\<rparr>)"
  have "0 \<le> score ?g2" using a by (simp add: check_keys_frame)
  then have "0 \<le> score (check_miss ?g2 d)" by (simp add: check_miss_score)
  then have "0 \<le> score (check_hit (check_miss ?g2 d))"
    using check_hit_score [of "check_miss ?g2 d"] by linarith
  then show ?thesis by (simp add: update_unfold check_bounce_frame)
qed

lemma step_score_nonneg: "0 \<le> score g \<Longrightarrow> 0 \<le> score (step g e)"
  by (cases e) (simp_all add: key_frame update_score_nonneg)

lemma run_score_nonneg: "0 \<le> score g \<Longrightarrow> 0 \<le> score (run g es)"
  by (induction es arbitrary: g) (simp_all add: step_score_nonneg)

text \<open>
  C2. When the ball is past the right edge (\<open>x > SCREEN_WIDTH\<close>) as \<open>check_miss\<close>
  runs, a score of at least 5 goes down by exactly 5 and a smaller score becomes exactly
  0; either way the new score is not negative, and the ball is restarted. A score that is
  not negative stays so through any list of key presses, key releases and ticks, and so
  the score of every game run from the start is never below 0.
\<close>

theorem check_miss_scoring:
  "(x (ball.center (ball g)) > SCREEN_WIDTH \<longrightarrow>
      score (check_miss g d) = (if score g \<ge> 5 then score g - 5 else 0) \<and>
      0 \<le> score (check_miss g d) \<and>
      ball (check_miss g d) = restart (ball g) d) \<and>
   (0 \<le> score g \<longrightarrow> 0 \<le> score (run g es)) \<and>
   0 \<le> score (run (Pong d0) es)"
  using run_score_nonneg [of g es] run_score_nonneg [of "Pong d0" es]
  by (simp add: check_miss_score check_miss_ball Pong_def)


theorem check_miss_scoring_witness:
  "x (ball.center (ball
      \<lparr>ball = \<lparr>ball.center = \<lparr>x = 401, y = 170\<rparr>, velocity = \<lparr>dx = 3, dy = 4\<rparr>\<rparr>,
       paddle = \<lparr>paddle.center = \<lparr>x = 390, y = 150\<rparr>\<rparr>, score = 3,
       holding_left = False, holding_right = False\<rparr>)) > SCREEN_WIDTH \<and>
   score (check_miss
      \<lparr>ball = \<lparr>ball.center = \<lparr>x = 401, y = 170\<rparr>, velocity = \<lparr>dx = 3, dy = 4\<rparr>\<rparr>,
       paddle = \<lparr>paddle.center = \<lparr>x = 390, y = 150\<rparr>\<rparr>, score = 3,
       holding_left = False, holding_right = False\<rparr>
      \<lparr>draw_y = 120, draw_dx = 3, draw_dy = 5\<rparr>) = 0 \<and>
   x (ball.center (ball (check_miss
      \<lparr>ball = \<lparr>ball.center = \<lparr>x = 401, y = 170\<rparr>, velocity = \<lparr>dx = 3, dy = 4\<rparr>\<rparr>,
       paddle = \<lparr>paddle.center = \<lparr>x = 390, y = 150\<rparr>\<rparr>, score = 3,
       holding_left = False, holding_right = False\<rparr>
      \<lparr>draw_y = 120, draw_dx = 3, draw_dy = 5\<rparr>))) = 0 \<and>
   0 \<le> score (run
      \<lparr>ball = \<lparr>ball.center = \<lparr>x = 401, y = 170\<rparr>, velocity = \<lparr>dx = 3, dy = 4\<rparr>\<rparr>,
       paddle = \<lparr>paddle.center = \<lparr>x = 390, y = 150\<rparr>\<rparr>, score = 3,
       holding_left = False, holding_right = False\<rparr>
      [KeyPress UP, Update 1 \<lparr>draw_y = 120, draw_dx = 3, draw_dy = 5\<rparr>])"
  using check_miss_scoring [of
      "\<lparr>ball = \<lparr>ball.center = \<lparr>x = 401, y = 170\<rparr>, velocity = \<lparr>dx = 3, dy = 4\<rparr>\<rparr>,
       paddle = \<lparr>paddle.center = \<lparr>x = 390, y = 150\<rparr>\<rparr>, score = 3,
       holding_left = False, holding_right = False\<rparr>"
      "\<lparr>draw_y = 120, draw_dx = 3, draw_dy = 5\<rparr>"
      "[KeyPress UP, Update 1 \<lparr>draw_y = 120, draw_dx = 3, draw_dy = 5\<rparr>]"]
  by (simp add: constants restart_def)

section \<open>Bouncing off the walls\<close>

lemma check_bounce_cases:
  "check_bounce g =
     (if x (ball.center (ball g)) - BALL_RADIUS < 0 \<and> dx (velocity (ball g)) < 0
      then (if y (ball.center (ball g)) - BALL_RADIUS < 0 \<and> dy (velocity (ball g)) < 0
            then g\<lparr>ball := bounce_vertical (bounce_horizontal (ball g))\<rparr>
            else if y (ball.center (ball g)) + BALL_RADIUS > SCREEN_HEIGHT \<and> dy (velocity (ball g)) > 0
            then g\<lparr>ball := bounce_vertical (bounce_horizontal (ball g))\<rparr>
            else g\<lparr>ball := bounce_horizontal (ball g)\<rparr>)
      else (if y (ball.center (ball g)) - BALL_RADIUS < 0 \<and> dy (velocity (ball g)) < 0
            then g\<lparr>ball := bounce_vertical (ball g)\<rparr>
            else if y (ball.center (ball g)) + BALL_RADIUS > SCREEN_HEIGHT \<and> dy (velocity (ball g)) > 0
            then g\<lparr>ball := bounce_vertical (ball g)\<rparr>
            else g))"
proof (cases "x (ball.center (ball g)) - BALL_RADIUS < 0 \<and> dx (velocity (ball g)) < 0")
  case c1: True
  show ?thesis
  proof (cases "y (ball.center (ball g)) - BALL_RADIUS < 0 \<and> dy (velocity (ball g)) < 0")
    case c2: True
    show ?thesis using c1 c2
      by (simp add: check_bounce_def Let_def bounce_horizontal_def bounce_vertical_def constants)
  next
    case c2: False
    show ?thesis
    proof (cases "y (ball.center (ball g)) + BALL_RADIUS > SCREEN_HEIGHT \<and> dy (velocity (ball g)) > 0")
      case c3: True
      show ?thesis using c1 c2 c3
        by (simp add: check_bounce_def Let_def bounce_horizontal_def bounce_vertical_def constants)
    next
      case c3: False
      show ?thesis using c1 c2 c3
        by (simp add: check_bounce_def Let_def bounce_horizontal_def bounce_vertical_def constants)
    qed
  qed
next
  case c1: False
  show ?thesis
  proof (cases "y (ball.center (ball g)) - BALL_RADIUS < 0 \<and> dy (velocity (ball g)) < 0")
    case c2: True
    show ?thesis using c1 c2
      by (simp add: check_bounce_def Let_def bounce_horizontal_def bounce_vertical_def constants)
  next
    case c2: False
    show ?thesis
    proof (cases "y (ball.center (ball g)) + BALL_RADIUS > SCREEN_HEIGHT \<and> dy (velocity (ball g)) > 0")
      case c3: True
      show ?thesis using c1 c2 c3
        by (simp add: check_bounce_def Let_def bounce_horizontal_def bounce_vertical_def constants)
    next
      case c3: False
      show ?thesis using c1 c2 c3
        by (simp add: check_bounce_def Let_def bounce_horizontal_def bounce_vertical_def constants)
    qed
  qed
qed

lemma check_bounce_center: "ball.center (ball (check_bounce g)) = ball.center (ball g)"
  by (simp add: check_bounce_cases bounce_horizontal_def bounce_vertical_def)

lemma check_bounce_dx:
  "dx (velocity (ball (check_bounce g))) =
     (if x (ball.center (ball g)) - BALL_RADIUS < 0 \<and> dx (velocity (ball g)) < 0
      then - dx (velocity (ball g)) else dx (velocity (ball g)))"
  by (simp add: check_bounce_cases bounce_horizontal_def bounce_vertical_def)

lemma check_bounce_dy:
  "dy (velocity (ball (check_bounce g))) =
     (if y (ball.center (ball g)) - BALL_RADIUS < 0 \<and> dy (velocity (ball g)) < 0
      then - dy (velocity (ball g))
      else if y (ball.center (ball g)) + BALL_RADIUS > SCREEN_HEIGHT \<and> dy (velocity (ball g)) > 0
      then - dy (velocity (ball g)) else dy (velocity (ball g)))"
  by (simp add: check_bounce_cases bounce_horizontal_def bounce_vertical_def)

lemma check_bounce_fixed:
  assumes "\<not> (x (ball.center (ball g)) - BALL_RADIUS < 0 \<and> dx (velocity (ball g)) < 0)"
    and "\<not> (y (ball.center (ball g)) - BALL_RADIUS < 0 \<and> dy (velocity (ball g)) < 0)"
    and "\<not> (y (ball.center (ball g)) + BALL_RADIUS > SCREEN_HEIGHT \<and> dy (velocity (ball g)) > 0)"
  shows "check_bounce g = g"
proof -
  have "check_bounce g = (if False then g\<lparr>ball := bounce_horizontal (ball g)\<rparr> else g)"
    by (subst check_bounce_cases) (simp only: assms if_False)
  then show ?thesis by simp
qed

lemma check_bounce_settled:
  "\<not> (x (ball.center (ball (check_bounce g))) - BALL_RADIUS < 0 \<and>
      dx (velocity (ball (check_bounce g))) < 0)"
  "\<not> (y (ball.center (ball (check_bounce g))) - BALL_RADIUS < 0 \<and>
      dy (velocity (ball (check_bounce g))) < 0)"
  "\<not> (y (ball.center (ball (check_bounce g))) + BALL_RADIUS > SCREEN_HEIGHT \<and>
      dy (velocity (ball (check_bounce g))) > 0)"
  by (simp_all add: check_bounce_center check_bounce_dx check_bounce_dy constants)

text \<open>
  C5. \<open>check_bounce\<close> negates \<open>dx\<close> exactly when the ball overlaps the left wall and
  moves left, and negates \<open>dy\<close> exactly when the ball overlaps the top wall and moves
  up or overlaps the bottom wall and moves down; it negates either component once at most
  and does not move the ball. After it, none of the three wall conditions holds any more,
  so evaluating them again changes nothing: \<open>check_bounce\<close> applied twice is
  \<open>check_bounce\<close> applied once.
\<close>

theorem check_bounce_guard:
  "dx (velocity (ball (check_bounce g))) =
     (if x (ball.center (ball g)) - BALL_RADIUS < 0 \<and> dx (velocity (ball g)) < 0
      then - dx (velocity (ball g)) else dx (velocity (ball g))) \<and>
   dy (velocity (ball (check_bounce g))) =
     (if y (ball.center (ball g)) - BALL_RADIUS < 0 \<and> dy (velocity (ball g)) < 0
      then - dy (velocity (ball g))
      else if y (ball.center (ball g)) + BALL_RADIUS > SCREEN_HEIGHT \<and> dy (velocity (ball g)) > 0
      then - dy (velocity (ball g)) else dy (velocity (ball g))) \<and>
   ball.center (ball (check_bounce g)) = ball.center (ball g) \<and>
   \<not> (x (ball.center (ball (check_bounce g))) - BALL_RADIUS < 0 \<and>
      dx (velocity (ball (check_bounce g))) < 0) \<and>
   \<not> (y (ball.center (ball (check_bounce g))) - BALL_RADIUS < 0 \<and>
      dy (velocity (ball (check_bounce g))) < 0) \<and>
   \<not> (y (ball.center (ball (check_bounce g))) + BALL_RADIUS > SCREEN_HEIGHT \<and>
      dy (velocity (ball (check_bounce g))) > 0) \<and>
   check_bounce (check_bounce g) = check_bounce g"
  using check_bounce_dx [of g] check_bounce_dy [of g] check_bounce_center [of g]
    check_bounce_settled [of g] check_bounce_fixed [OF check_bounce_settled, of g]
  by blast

section \<open>The speed of the ball\<close>

lemma check_hit_vel:
  "(dx (velocity (ball (check_hit g))) \<noteq> 0) = (dx (velocity (ball g)) \<noteq> 0) \<and>
   (dy (velocity (ball (check_hit g))) \<noteq> 0) = (dy (velocity (ball g)) \<noteq> 0)"
  by (simp add: check_hit_def Let_def bounce_horizontal_def)

lemma check_bounce_vel:
  "(dx (velocity (ball (check_bounce g))) \<noteq> 0) = (dx (velocity (ball g)) \<noteq> 0) \<and>
   (dy (velocity (ball (check_bounce g))) \<noteq> 0) = (dy (velocity (ball g)) \<noteq> 0)"
  by (simp add: check_bounce_dx check_bounce_dy)

lemma check_miss_vel:
  assumes "draws_ok d" and "dx (velocity (ball g)) \<noteq> 0 \<and> dy (velocity (ball g)) \<noteq> 0"
  shows "dx (velocity (ball (check_miss g d))) \<noteq> 0 \<and> dy (velocity (ball (check_miss g d))) \<noteq> 0"
  using assms by (auto simp: check_miss_ball restart_def draws_ok_def)

lemma advance_vel: "velocity (advance b) = velocity b"
  by (simp add: advance_def)

lemma update_vel:
  assumes "draws_ok d" and "dx (velocity (ball g)) \<noteq> 0 \<and> dy (velocity (ball g)) \<noteq> 0"
  shows "dx (velocity (ball (update g dt d))) \<noteq> 0 \<and> dy (velocity (ball (update g dt d))) \<noteq> 0"
proof -
  let ?g2 = "check_keys (g\<lparr>ball := advance (ball g)\<rparr>)"
  have "dx (velocity (ball ?g2)) \<noteq> 0 \<and> dy (velocity (ball ?g2)) \<noteq> 0"
    using assms(2) by (simp add: check_keys_frame advance_vel)
  then have "dx (velocity (ball (check_miss ?g2 d))) \<noteq> 0 \<and>
             dy (velocity (ball (check_miss ?g2 d))) \<noteq> 0"
    by (rule check_miss_vel [OF assms(1)])
  then show ?thesis
    by (simp add: update_unfold check_bounce_vel check_hit_vel)
qed

lemma step_vel:
  assumes "event_ok e" and "dx (velocity (ball g)) \<noteq> 0 \<and> dy (velocity (ball g)) \<noteq> 0"
  shows "dx (velocity (ball (step g e))) \<noteq> 0 \<and> dy (velocity (ball (step g e))) \<noteq> 0"
  using assms by (cases e) (simp_all add: key_frame update_vel)

lemma run_vel:
  "list_all event_ok es \<Longrightarrow>
   dx (velocity (ball g)) \<noteq> 0 \<and> dy (velocity (ball g)) \<noteq> 0 \<Longrightarrow>
   dx (velocity (ball (run g es))) \<noteq> 0 \<and> dy (velocity (ball (run g es))) \<noteq> 0"
proof (induction es arbitrary: g)
  case Nil
  then show ?case by simp
next
  case (Cons e es)
  from Cons.prems have ok: "event_ok e" and rest: "list_all event_ok es" by simp_all
  show ?case using Cons.IH [OF rest step_vel [OF ok Cons.prems(2)]] by simp
qed

lemma Ball_vel:
  "draws_ok d \<Longrightarrow> dx (velocity (Ball d)) \<noteq> 0 \<and> dy (velocity (Ball d)) \<noteq> 0"
  by (auto simp: Ball_def Velocity_def draws_ok_def)

text \<open>
  C8. In a game started with draws in their ranges, after any list of key presses, key
  releases and ticks whose draws lie in their ranges, neither \<open>dx\<close> nor \<open>dy\<close> of
  the ball is zero. Of the operations of the ball, \<open>advance\<close> leaves the velocity as
  it was, and a bounce gives a nonzero component exactly when it was given one.
\<close>

theorem velocity_never_zero:
  assumes "draws_ok d0" and "list_all event_ok es"
  shows "dx (velocity (ball (run (Pong d0) es))) \<noteq> 0 \<and>
         dy (velocity (ball (run (Pong d0) es))) \<noteq> 0 \<and>
         velocity (advance b) = velocity b \<and>
         (dx (velocity (bounce_horizontal b)) \<noteq> 0) = (dx (velocity b) \<noteq> 0) \<and>
         (dy (velocity (bounce_horizontal b)) \<noteq> 0) = (dy (velocity b) \<noteq> 0) \<and>
         (dx (velocity (bounce_vertical b)) \<noteq> 0) = (dx (velocity b) \<noteq> 0) \<and>
         (dy (velocity (bounce_vertical b)) \<noteq> 0) = (dy (velocity b) \<noteq> 0)"
proof -
  have "dx (velocity (ball (Pong d0))) \<noteq> 0 \<and> dy (velocity (ball (Pong d0))) \<noteq> 0"
    using Ball_vel [OF assms(1)] by (simp add: Pong_def)
  with assms(2)
  have "dx (velocity (ball (run (Pong d0) es))) \<noteq> 0 \<and>
        dy (velocity (ball (run (Pong d0) es))) \<noteq> 0"
    by (rule run_vel)
  then show ?thesis
    by (simp add: advance_vel bounce_horizontal_def bounce_vertical_def)
qed

theorem velocity_never_zero_witness:
  "draws_ok \<lparr>draw_y = 5, draw_dx = 3, draw_dy = 4\<rparr> \<and>
   list_all event_ok [KeyPress UP, Update 1 \<lparr>draw_y = 120, draw_dx = 3, draw_dy = 5\<rparr>,
                      KeyRelease UP] \<and>
   dx (velocity (ball (run (Pong \<lparr>draw_y = 5, draw_dx = 3, draw_dy = 4\<rparr>)
      [KeyPress UP, Update 1 \<lparr>draw_y = 120, draw_dx = 3, draw_dy = 5\<rparr>, KeyRelease UP]))) \<noteq> 0 \<and>
   dy (velocity (ball (run (Pong \<lparr>draw_y = 5, draw_dx = 3, draw_dy = 4\<rparr>)
      [KeyPress UP, Update 1 \<lparr>draw_y = 120, draw_dx = 3, draw_dy = 5\<rparr>, KeyRelease UP]))) \<noteq> 0"
proof -
  have h1: "draws_ok \<lparr>draw_y = 5, draw_dx = 3, draw_dy = 4\<rparr>"
    by (simp add: draws_ok_def SCREEN_HEIGHT_def)
  have h2: "list_all event_ok [KeyPress UP, Update 1 \<lparr>draw_y = 120, draw_dx = 3, draw_dy = 5\<rparr>,
                      KeyRelease UP]"
    by (simp add: draws_ok_def SCREEN_HEIGHT_def)
  show ?thesis using h1 h2 velocity_never_zero [OF h1 h2] by simp
qed

section \<open>A miss and a hit in one tick\<close>

lemma step_paddle_x: "x (paddle.center (paddle (step g e))) = x (paddle.center (paddle g))"
  by (cases e) (simp_all add: key_frame update_paddle check_keys_x)

lemma run_paddle_x: "x (paddle.center (paddle (run g es))) = x (paddle.center (paddle g))"
  by (induction es arbitrary: g) (simp_all add: step_paddle_x)

lemma reachable_paddle_x:
  "x (paddle.center (paddle (run (Pong d0) es))) = SCREEN_WIDTH - PADDLE_WIDTH"
  by (simp add: run_paddle_x Pong_def Paddle_def Point_def)

text \<open>
  C10. With the paddle at \<open>x = SCREEN_WIDTH - PADDLE_WIDTH = 390\<close> (where it is in
  every game run from the start, by \<open>reachable_paddle_x\<close>), in a tick whose ball is
  past the right edge when \<open>check_miss\<close> runs, \<open>check_hit\<close> changes nothing after
  \<open>check_miss\<close>: the velocity it leaves is the one the restart drew, and the score
  after the tick is the score before it less the miss penalty, or 0 if it was below 5.
\<close>

theorem miss_excludes_hit:
  assumes "x (paddle.center (paddle g)) = SCREEN_WIDTH - PADDLE_WIDTH"
    and "x (ball.center (ball (check_keys (g\<lparr>ball := advance (ball g)\<rparr>)))) > SCREEN_WIDTH"
  shows "check_hit (check_miss (check_keys (g\<lparr>ball := advance (ball g)\<rparr>)) d) =
           check_miss (check_keys (g\<lparr>ball := advance (ball g)\<rparr>)) d \<and>
         score (update g dt d) = (if score g \<ge> 5 then score g - SCORE_MISS else 0) \<and>
         velocity (ball (check_hit (check_miss (check_keys (g\<lparr>ball := advance (ball g)\<rparr>)) d))) =
           velocity (restart (advance (ball g)) d)"
proof -
  let ?g2 = "check_keys (g\<lparr>ball := advance (ball g)\<rparr>)"
  let ?g3 = "check_miss ?g2 d"
  have px: "x (paddle.center (paddle ?g3)) = 390"
    using assms(1) by (simp add: check_miss_frame check_keys_x constants)
  have bx: "x (ball.center (ball ?g3)) = 0"
    using assms(2) by (simp add: check_miss_ball restart_def)
  have nohit: "check_hit ?g3 = ?g3"
    using px bx by (simp add: check_hit_def Let_def constants)
  have sc: "score ?g3 = (if score g \<ge> 5 then score g - SCORE_MISS else 0)"
    using assms(2) by (simp add: check_miss_score check_keys_frame SCORE_MISS_def)
  have bl: "ball ?g3 = restart (advance (ball g)) d"
    using assms(2) by (simp add: check_miss_ball check_keys_frame)
  show ?thesis using nohit sc bl
    by (simp add: update_unfold check_bounce_frame)
qed

theorem miss_excludes_hit_witness:
  "x (paddle.center (paddle
      \<lparr>ball = \<lparr>ball.center = \<lparr>x = 398, y = 170\<rparr>, velocity = \<lparr>dx = 4, dy = 3\<rparr>\<rparr>,
       paddle = \<lparr>paddle.center = \<lparr>x = 390, y = 150\<rparr>\<rparr>, score = 7,
       holding_left = False, holding_right = True\<rparr>)) = SCREEN_WIDTH - PADDLE_WIDTH \<and>
   x (ball.center (ball (check_keys
      (\<lparr>ball = \<lparr>ball.center = \<lparr>x = 398, y = 170\<rparr>, velocity = \<lparr>dx = 4, dy = 3\<rparr>\<rparr>,
       paddle = \<lparr>paddle.center = \<lparr>x = 390, y = 150\<rparr>\<rparr>, score = 7,
       holding_left = False, holding_right = True\<rparr>
       \<lparr>ball := advance \<lparr>ball.center = \<lparr>x = 398, y = 170\<rparr>, velocity = \<lparr>dx = 4, dy = 3\<rparr>\<rparr>\<rparr>))))
     > SCREEN_WIDTH \<and>
   score (update
      \<lparr>ball = \<lparr>ball.center = \<lparr>x = 398, y = 170\<rparr>, velocity = \<lparr>dx = 4, dy = 3\<rparr>\<rparr>,
       paddle = \<lparr>paddle.center = \<lparr>x = 390, y = 150\<rparr>\<rparr>, score = 7,
       holding_left = False, holding_right = True\<rparr>
      1 \<lparr>draw_y = 120, draw_dx = 3, draw_dy = 5\<rparr>) = 2"
proof -
  let ?g = "\<lparr>ball = \<lparr>ball.center = \<lparr>x = 398, y = 170\<rparr>, velocity = \<lparr>dx = 4, dy = 3\<rparr>\<rparr>,
       paddle = \<lparr>paddle.center = \<lparr>x = 390, y = 150\<rparr>\<rparr>, score = 7,
       holding_left = False, holding_right = True\<rparr>"
  have h1: "x (paddle.center (paddle ?g)) = SCREEN_WIDTH - PADDLE_WIDTH"
    by (simp add: constants)
  have h2: "x (ball.center (ball (check_keys (?g\<lparr>ball := advance (ball ?g)\<rparr>)))) > SCREEN_WIDTH"
    by (simp add: check_keys_frame advance_def constants)
  show ?thesis
    using h1 h2 miss_excludes_hit [OF h1 h2, of "\<lparr>draw_y = 120, draw_dx = 3, draw_dy = 5\<rparr>" 1]
    by (simp add: SCORE_MISS_def)
qed

end
